theory Spec2Isabelle
  imports Complex_Main "HOL-Library.Word"
begin

unbundle bit_operations_syntax

section \<open>Data model (types.ts)\<close>

text \<open>
  JavaScript numbers are modelled as HOL reals: rounding to binary64 is not part of the
  model. The rounding to 32-bit floats of a store into a \<^verbatim>\<open>Float32Array\<close> is
  modelled in \<^verbatim>\<open>generateElevation\<close> (by \<open>fround\<close> below), where the stored
  values are compared with trackers that stay unrounded; the other typed arrays are
  lists of reals. Where the source can produce \<^verbatim>\<open>NaN\<close>, an infinity or
  \<^verbatim>\<open>undefined\<close>, the definition says so and writes out what the JavaScript does
  there.
\<close>

record Point =
  pt_x :: real
  pt_y :: real

record PointsData =
  points :: "Point list"
  mountainPoints :: "Point list"

text \<open>
  The mesh object of \<^verbatim>\<open>createMesh\<close>. The accessor closures \<^verbatim>\<open>x_of_t\<close>,
  \<^verbatim>\<open>y_of_t\<close> and \<^verbatim>\<open>t_center\<close> read the captured array
  \<^verbatim>\<open>triangleCenters\<close>, which is a field here. \<^verbatim>\<open>is_boundary_t\<close> is a
  \<^verbatim>\<open>Uint8Array\<close> that only ever holds 0 or 1 and is only tested for truth.
  \<^verbatim>\<open>neighbors[t][j]\<close> is a triangle index or the sentinel -1.
\<close>

record VoronoiMesh =
  mesh_points :: "real list"
  triangles :: "nat list"
  halfedges :: "int list"
  numPoints :: nat
  numTriangles :: nat
  numHalfedges :: nat
  is_boundary_t :: "bool list"
  mesh_width :: real
  mesh_height :: real
  neighbors :: "int list list"
  triangleCenters :: "Point list"

record NoiseData =
  nd_elevation :: "real list"
  nd_moisture :: "real list"
  nd_waterNoise :: "real list"
  nd_roughness :: "real list"

record RiverPath =
  rp_triangles :: "nat list"
  sourceTriangle :: nat
  flow :: real

record Lighting =
  enabled :: bool
  azimuth :: real
  angle :: real
  intensity :: real

record MapConfig =
  cfg_seed :: string
  cfg_width :: real
  cfg_height :: real
  cfg_seaLevel :: real
  cfg_biomeDensity :: real
  cfg_mountainFrequency :: real
  cfg_hillFrequency :: real
  cfg_islandFrequency :: real
  cfg_pointDeviation :: real
  cfg_oceanRatio :: real
  cfg_jaggedness :: real
  cfg_mountainHeight :: real
  cfg_windAngleDeg :: real
  cfg_raininess :: real
  cfg_rainShadow :: real
  cfg_evaporation :: real
  cfg_riverWidth :: real
  cfg_rivers :: real
  cfg_riverMinFlow :: real
  cfg_showVoronoi :: bool
  cfg_lighting :: Lighting

datatype BiomeType =
    OCEAN | DEEP_OCEAN | SHALLOW_OCEAN | SHALLOW_WATER
  | BEACH
  | SNOW | TUNDRA | TAIGA
  | GRASSLAND | SHRUBLAND | TEMPERATE_DECIDUOUS_FOREST | TEMPERATE_RAIN_FOREST
  | TEMPERATE_DESERT
  | SUBTROPICAL_DESERT | TROPICAL_SEASONAL_FOREST | TROPICAL_RAIN_FOREST
  | MOUNTAIN | BARE | SCORCHED

text \<open>
  Exceptions. \<^verbatim>\<open>createMesh\<close> wraps whatever its body throws in
  \<^verbatim>\<open>new Error(`Failed to create mesh: ${error.message}`)\<close>.
\<close>

datatype exn =
    TypeError
  | RangeError
  | Library_error string
  | Failed_to_create_mesh exn

text \<open>
  Reading a typed array at an index that may be -1 or past the end: JavaScript yields
  \<^verbatim>\<open>undefined\<close> there (\<open>None\<close>), and every comparison with \<^verbatim>\<open>undefined\<close>
  is false.
\<close>

definition nth_opt :: "'a list \<Rightarrow> int \<Rightarrow> 'a option" where
  "nth_opt xs i = (if 0 \<le> i \<and> nat i < length xs then Some (xs ! nat i) else None)"

definition lt_undef :: "real option \<Rightarrow> real \<Rightarrow> bool" where
  "lt_undef v b = (case v of None \<Rightarrow> False | Some a \<Rightarrow> a < b)"

section \<open>Seeded randomness (random.ts)\<close>

text \<open>
  \<^verbatim>\<open>hashSeed\<close>: the accumulator is cut to 32 bits after every character, so it is a
  32-bit word.
\<close>

definition hashSeed :: "string \<Rightarrow> 32 word" where
  "hashSeed seed = foldl (\<lambda>hash ch. push_bit 5 hash - hash + of_nat (of_char ch)) 0 seed"

text \<open>One call of the closure of \<^verbatim>\<open>createRNG\<close>: the xorshift step on its state.\<close>

definition xorshift :: "32 word \<Rightarrow> 32 word" where
  "xorshift state =
     (let s1 = state XOR push_bit 13 state;
          s2 = s1 XOR drop_bit 17 s1
      in s2 XOR push_bit 5 s2)"

text \<open>
  \<^verbatim>\<open>createRNG\<close>: the closure is modelled by the sequence of the numbers it returns,
  \<open>createRNG seed k\<close> being the result of call number \<open>k\<close> (from 0).
\<close>

definition createRNG :: "string \<Rightarrow> nat \<Rightarrow> real" where
  "createRNG seed k =
     real (unat ((xorshift ^^ Suc k) (hashSeed seed)) mod 2147483647) / 2147483647"

text \<open>
  \<^verbatim>\<open>createNoise2D\<close> of the external library simplex-noise is a parameter of the
  model: it maps the random function it is given (its sequence of results) to a noise
  function.
\<close>

type_synonym noise2D = "real \<Rightarrow> real \<Rightarrow> real"
type_synonym createNoise2D = "(nat \<Rightarrow> real) \<Rightarrow> noise2D"

definition createSeededNoise2D :: "createNoise2D \<Rightarrow> string \<Rightarrow> noise2D" where
  "createSeededNoise2D lib seed = lib (createRNG seed)"

text \<open>
  \<^verbatim>\<open>Math.random()\<close> is ambient: its results are not a function of the configuration.
  The model takes the sequence of its results as a parameter \<open>random :: nat \<Rightarrow> real\<close>
  and threads the number of calls made so far.
\<close>

section \<open>Point sampling (pointsGeneration.ts)\<close>

text \<open>
  The values of the loop variable of \<^verbatim>\<open>for (v = a; v <= b; v += step)\<close>, of the
  same loop with \<^verbatim>\<open><\<close>, and of \<^verbatim>\<open>for (v = a; v >= b; v -= step)\<close>. The loops
  are only run with a positive finite step; a step that is not positive would not
  terminate and gives no values here.
\<close>

function steps_up_le :: "real \<Rightarrow> real \<Rightarrow> real \<Rightarrow> real list" where
  "steps_up_le v b step =
     (if step > 0 \<and> v \<le> b then v # steps_up_le (v + step) b step else [])"
  by pat_completeness auto
termination
proof (relation "measure (\<lambda>(v, b, step). nat (\<lfloor>(b - v) / step\<rfloor> + 1))", goal_cases)
  case 1
  show ?case by simp
next
  case (2 v b step)
  then have "(b - (v + step)) / step = (b - v) / step - 1"
    by (simp add: field_simps)
  moreover have "0 \<le> \<lfloor>(b - v) / step\<rfloor>" using 2 by simp
  ultimately show ?case by simp
qed

declare steps_up_le.simps [simp del]

function steps_up_lt :: "real \<Rightarrow> real \<Rightarrow> real \<Rightarrow> real list" where
  "steps_up_lt v b step =
     (if step > 0 \<and> v < b then v # steps_up_lt (v + step) b step else [])"
  by pat_completeness auto
termination
proof (relation "measure (\<lambda>(v, b, step). nat \<lceil>(b - v) / step\<rceil>)", goal_cases)
  case 1
  show ?case by simp
next
  case (2 v b step)
  then have "(b - (v + step)) / step = (b - v) / step - 1"
    by (simp add: field_simps)
  moreover have "0 < \<lceil>(b - v) / step\<rceil>" using 2 by simp
  ultimately show ?case by simp
qed

declare steps_up_lt.simps [simp del]

function steps_down_ge :: "real \<Rightarrow> real \<Rightarrow> real \<Rightarrow> real list" where
  "steps_down_ge v b step =
     (if step > 0 \<and> v \<ge> b then v # steps_down_ge (v - step) b step else [])"
  by pat_completeness auto
termination
proof (relation "measure (\<lambda>(v, b, step). nat (\<lfloor>(v - b) / step\<rfloor> + 1))", goal_cases)
  case 1
  show ?case by simp
next
  case (2 v b step)
  then have "(v - step - b) / step = (v - b) / step - 1"
    by (simp add: field_simps)
  moreover have "0 \<le> \<lfloor>(v - b) / step\<rfloor>" using 2 by simp
  ultimately show ?case by simp
qed

declare steps_down_ge.simps [simp del]

text \<open>
  \<^verbatim>\<open>cellSize\<close> in \<^verbatim>\<open>generatePoints\<close>. The quotient is \<^verbatim>\<open>0 / 0 = NaN\<close> when
  \<^verbatim>\<open>width * height\<close> is 0, infinite when only \<^verbatim>\<open>biomeDensity\<close> is 0, and negative
  with the root \<^verbatim>\<open>NaN\<close> when \<^verbatim>\<open>biomeDensity\<close> is negative: \<open>None\<close> stands for
  these results, \<^verbatim>\<open>NaN\<close> and \<^verbatim>\<open>Infinity\<close>.
\<close>

definition cellSize :: "MapConfig \<Rightarrow> real option" where
  "cellSize config =
     (if cfg_width config * cfg_height config = 0 \<or> cfg_biomeDensity config \<le> 0 then None
      else Some (sqrt ((cfg_width config * cfg_height config)
                       / ((cfg_width config * cfg_height config * cfg_biomeDensity config) / 30))))"

definition mk_point :: "real \<Rightarrow> real \<Rightarrow> Point" where
  "mk_point a b = \<lparr>pt_x = a, pt_y = b\<rparr>"

text \<open>
  \<^verbatim>\<open>createBoundaryPoints\<close>: the points it pushes, in order. With a spacing that is
  \<^verbatim>\<open>NaN\<close> or \<^verbatim>\<open>Infinity\<close> every loop test fails after the first point of the
  bottom edge.
\<close>

definition createBoundaryPoints :: "real \<Rightarrow> real \<Rightarrow> real option \<Rightarrow> Point list" where
  "createBoundaryPoints width height spacing =
     (case spacing of
        None \<Rightarrow> (if 0 \<le> width then [mk_point 0 0] else [])
      | Some sp \<Rightarrow>
          map (\<lambda>v. mk_point v 0) (steps_up_le 0 width sp)
          @ map (\<lambda>v. mk_point width v) (steps_up_le sp height sp)
          @ map (\<lambda>v. mk_point v height) (steps_down_ge (width - sp) 0 sp)
          @ map (\<lambda>v. mk_point 0 v) (steps_down_ge (height - sp) sp sp))"

text \<open>
  The body of the interior loops of \<^verbatim>\<open>generatePoints\<close> over the grid sites still to
  visit, with the number \<open>k\<close> of \<^verbatim>\<open>Math.random()\<close> calls made so far. The third call
  is only made when \<^verbatim>\<open>mountainValue > 0.7\<close>.
\<close>

fun interior_points ::
  "noise2D \<Rightarrow> noise2D \<Rightarrow> (nat \<Rightarrow> real) \<Rightarrow> MapConfig \<Rightarrow> real \<Rightarrow> (real \<times> real) list \<Rightarrow> nat \<Rightarrow>
   Point list \<times> Point list \<times> nat" where
  "interior_points noise mountainNoise random config cs [] k = ([], [], k)"
| "interior_points noise mountainNoise random config cs ((gx, gy) # sites) k =
     (let offsetX = (random k * 2 - 1) * cs * cfg_pointDeviation config;
          offsetY = (random (k + 1) * 2 - 1) * cs * cfg_pointDeviation config;
          nx = (gx + offsetX) / cfg_width config;
          ny = (gy + offsetY) / cfg_height config;
          px = max (cs / 2) (min (cfg_width config - cs / 2) (gx + offsetX));
          py = max (cs / 2) (min (cfg_height config - cs / 2) (gy + offsetY));
          mountainValue = (mountainNoise (nx * 4) (ny * 4) * 0.5 + 0.5)
                        * (noise (nx * 8) (ny * 8) * 0.5 + 0.5);
          isMountain = (mountainValue > 0.7 \<and> random (k + 2) < cfg_mountainFrequency config);
          k' = (if mountainValue > 0.7 then k + 3 else k + 2);
          (ps, ms, kf) = interior_points noise mountainNoise random config cs sites k'
      in (mk_point px py # ps, (if isMountain then mk_point px py # ms else ms), kf))"

text \<open>
  \<^verbatim>\<open>generatePoints\<close>, with the number of \<^verbatim>\<open>Math.random()\<close> calls made before and
  after. The grid sites are visited row by row.
\<close>

definition generatePoints ::
  "createNoise2D \<Rightarrow> (nat \<Rightarrow> real) \<Rightarrow> nat \<Rightarrow> MapConfig \<Rightarrow> PointsData \<times> nat" where
  "generatePoints lib random k config =
     (let width = cfg_width config;
          height = cfg_height config;
          noise = createSeededNoise2D lib (cfg_seed config);
          mountainNoise = createSeededNoise2D lib (cfg_seed config @ ''-mountains'')
      in case cellSize config of
           None \<Rightarrow>
             (\<lparr>points = createBoundaryPoints width height None, mountainPoints = []\<rparr>, k)
         | Some cs \<Rightarrow>
             (let boundary = createBoundaryPoints width height (Some (cs / 2));
                  sites = concat (map (\<lambda>gy. map (\<lambda>gx. (gx, gy))
                                             (steps_up_lt (cs / 2) (width - cs / 2) cs))
                                      (steps_up_lt (cs / 2) (height - cs / 2) cs));
                  (ps, ms, kf) = interior_points noise mountainNoise random config cs sites k
              in (\<lparr>points = boundary @ ps, mountainPoints = ms\<rparr>, kf)))"

section \<open>Mesh construction (mesh.ts)\<close>

text \<open>
  The triangulation comes from the external library Delaunator, a parameter of the model:
  given the flat coordinate array it throws or returns the arrays \<^verbatim>\<open>triangles\<close>
  and \<^verbatim>\<open>halfedges\<close>.
\<close>

record Delaunay =
  dl_triangles :: "nat list"
  dl_halfedges :: "int list"

type_synonym delaunator = "real list \<Rightarrow> exn + Delaunay"

text \<open>
  The loop over the halfedges, on the list of the indices \<open>e\<close> still to visit. Writing
  \<^verbatim>\<open>neighbors[t][j]\<close> for a row \<open>t\<close> that does not exist throws a TypeError; a
  write past the end of the \<^verbatim>\<open>Uint8Array\<close> is ignored.
\<close>

fun analyse_halfedges ::
  "int list \<Rightarrow> nat list \<Rightarrow> int list list \<times> bool list \<Rightarrow> exn + int list list \<times> bool list" where
  "analyse_halfedges h [] st = Inr st"
| "analyse_halfedges h (e # es) (nbs, bnd) =
     (let t = e div 3; j = e mod 3; opposite = h ! e in
      if opposite \<ge> 0 then
        (if t < length nbs
         then analyse_halfedges h es (nbs[t := (nbs ! t)[j := opposite div 3]], bnd)
         else Inl TypeError)
      else analyse_halfedges h es (nbs, bnd[t := True]))"

text \<open>\<^verbatim>\<open>calculateTriangleCenter\<close>\<close>

definition calculateTriangleCenter :: "nat \<Rightarrow> nat list \<Rightarrow> real list \<Rightarrow> Point" where
  "calculateTriangleCenter t tris pts =
     (let i = t * 3;
          p0 = tris ! i * 2;
          p1 = tris ! (i + 1) * 2;
          p2 = tris ! (i + 2) * 2
      in \<lparr>pt_x = (pts ! p0 + pts ! p1 + pts ! p2) / 3,
          pt_y = (pts ! (p0 + 1) + pts ! (p1 + 1) + pts ! (p2 + 1)) / 3\<rparr>)"

text \<open>The flat coordinate array handed to Delaunator.\<close>

definition flatten_points :: "PointsData \<Rightarrow> real list" where
  "flatten_points pointsData =
     concat (map (\<lambda>point. [pt_x point, pt_y point]) (points pointsData))"

text \<open>
  \<^verbatim>\<open>createMesh\<close>. \<^verbatim>\<open>numTriangles\<close> is \<^verbatim>\<open>triangles.length / 3\<close>; when that
  is not a whole number \<^verbatim>\<open>Array(numTriangles)\<close> throws a RangeError.
\<close>

definition createMesh :: "delaunator \<Rightarrow> PointsData \<Rightarrow> real \<Rightarrow> real \<Rightarrow> exn + VoronoiMesh" where
  "createMesh Delaunator pointsData width height =
     (let flatPoints = flatten_points pointsData in
      case Delaunator flatPoints of
        Inl e \<Rightarrow> Inl (Failed_to_create_mesh e)
      | Inr delaunay \<Rightarrow>
          if length (dl_triangles delaunay) mod 3 \<noteq> 0
          then Inl (Failed_to_create_mesh RangeError)
          else
            let nPoints = length (points pointsData);
                nTriangles = length (dl_triangles delaunay) div 3;
                nHalfedges = length (dl_halfedges delaunay)
            in (case analyse_halfedges (dl_halfedges delaunay) [0..<nHalfedges]
                      (replicate nTriangles [-1, -1, -1], replicate nTriangles False) of
                 Inl e \<Rightarrow> Inl (Failed_to_create_mesh e)
               | Inr (nbs, bnd) \<Rightarrow>
                   Inr \<lparr>mesh_points = flatPoints,
                        triangles = dl_triangles delaunay,
                        halfedges = dl_halfedges delaunay,
                        numPoints = nPoints,
                        numTriangles = nTriangles,
                        numHalfedges = nHalfedges,
                        is_boundary_t = bnd,
                        mesh_width = width,
                        mesh_height = height,
                        neighbors = nbs,
                        triangleCenters =
                          map (\<lambda>t. calculateTriangleCenter t (dl_triangles delaunay) flatPoints)
                              [0..<nTriangles]\<rparr>))"

text \<open>
  What Delaunator documents of its output: \<^verbatim>\<open>halfedges\<close> is as long as
  \<^verbatim>\<open>triangles\<close>, and \<^verbatim>\<open>halfedges[e]\<close> is -1 or the index of the opposite
  halfedge, whose own opposite is \<open>e\<close>, in another triangle.
\<close>

definition halfedge_ok :: "int list \<Rightarrow> nat \<Rightarrow> bool" where
  "halfedge_ok h e =
     (h ! e = -1 \<or>
      (0 \<le> h ! e \<and> nat (h ! e) < length h \<and> h ! nat (h ! e) = int e))"

definition delaunay_contract :: "Delaunay \<Rightarrow> bool" where
  "delaunay_contract d =
     (length (dl_halfedges d) = length (dl_triangles d)
      \<and> list_all (halfedge_ok (dl_halfedges d)) [0..<length (dl_halfedges d)])"

section \<open>Priority queue (flatqueue)\<close>

text \<open>
  \<^verbatim>\<open>FlatQueue\<close> is the external library flatqueue, a binary min-heap of ids with
  priorities. The model keeps the entries in the order they were pushed and pops the
  first entry of least priority; which of several entries of equal priority the library
  pops is not modelled.
\<close>

type_synonym flatqueue = "(nat \<times> real) list"

definition queue_push :: "flatqueue \<Rightarrow> nat \<Rightarrow> real \<Rightarrow> flatqueue" where
  "queue_push q i v = q @ [(i, v)]"

fun least_entry :: "nat \<times> real \<Rightarrow> flatqueue \<Rightarrow> nat \<times> real" where
  "least_entry best [] = best"
| "least_entry best (e # es) =
     (if snd e < snd best then least_entry e es else least_entry best es)"

fun queue_pop :: "flatqueue \<Rightarrow> (nat \<times> flatqueue) option" where
  "queue_pop [] = None"
| "queue_pop (e # es) = (let b = least_entry e es in Some (fst b, remove1 b (e # es)))"

text \<open>\<^verbatim>\<open>visited[neighbor]\<close> on the \<^verbatim>\<open>Uint8Array\<close>: falsy out of range.\<close>

definition visited_at :: "bool list \<Rightarrow> int \<Rightarrow> bool" where
  "visited_at visited i = (case nth_opt visited i of Some b \<Rightarrow> b | None \<Rightarrow> False)"

section \<open>Terrain (terrain.ts)\<close>













text \<open>
  The elevation that the loop of \<^verbatim>\<open>generateElevation\<close> computes for a
  non-boundary triangle, before normalisation. The centroid is taken to lie in the map
  rectangle of positive width and height, so that \<^verbatim>\<open>nx\<close> is not negative and
  JavaScript's \<^verbatim>\<open>%\<close> is \<open>mod\<close>.
\<close>

definition triangle_elevation ::
  "VoronoiMesh \<Rightarrow> real list \<Rightarrow> real list \<Rightarrow> NoiseData \<Rightarrow> MapConfig \<Rightarrow> nat \<Rightarrow> real" where
  "triangle_elevation mesh continentMask mountainDistance noiseData config t =
     (let p = triangleCenters mesh ! t;
          nx = pt_x p / mesh_width mesh;
          ny = pt_y p / mesh_height mesh;
          noiseIndex = nat (\<lfloor>nx * 1024\<rfloor> mod 1024);
          terrainNoise = nd_elevation noiseData ! noiseIndex;
          waterValue = nd_waterNoise noiseData ! noiseIndex;
          roughnessValue = nd_roughness noiseData ! noiseIndex;
          mountainDist = mountainDistance ! t;
          mountainValue = 1 - mountainDist;
          mountainContribution = mountainValue ^ 2 * cfg_mountainHeight config;
          elevation = continentMask ! t * 0.6
                    + mountainContribution * 0.5
                    + terrainNoise * roughnessValue * 0.3
      in if waterValue < 0.3 then elevation * (waterValue * 3) else elevation)"

text \<open>The inputs on which \<open>triangle_elevation\<close> is the source's arithmetic.\<close>

definition elevation_inputs_ok ::
  "VoronoiMesh \<Rightarrow> real list \<Rightarrow> real list \<Rightarrow> NoiseData \<Rightarrow> bool" where
  "elevation_inputs_ok mesh continentMask mountainDistance noiseData =
     (0 < mesh_width mesh \<and> 0 < mesh_height mesh
      \<and> length (triangleCenters mesh) = numTriangles mesh
      \<and> list_all (\<lambda>p. 0 \<le> pt_x p \<and> pt_x p \<le> mesh_width mesh
                        \<and> 0 \<le> pt_y p \<and> pt_y p \<le> mesh_height mesh) (triangleCenters mesh)
      \<and> length (is_boundary_t mesh) = numTriangles mesh
      \<and> length continentMask = numTriangles mesh
      \<and> length mountainDistance = numTriangles mesh
      \<and> length (nd_elevation noiseData) = 1024
      \<and> length (nd_waterNoise noiseData) = 1024
      \<and> length (nd_roughness noiseData) = 1024)"

text \<open>
  A store into the \<^verbatim>\<open>Float32Array\<close> \<^verbatim>\<open>elevation_t\<close> rounds the number to
  the nearest 32-bit float, ties to the even significand (\<^verbatim>\<open>Math.fround\<close>). The
  floats with exponent \<open>e\<close> are the multiples of \<open>2 powi (e - 23)\<close>; the exponent is
  at least -126 (below that the floats are subnormal and keep the spacing
  \<open>2 powi (-149)\<close>) and at most 127. A magnitude of \<open>2 ^ 128 - 2 ^ 103\<close> or more is
  stored as an infinity, which the reals do not have: elevations are taken to stay below
  that bound.
\<close>

definition round_even :: "real \<Rightarrow> int" where
  "round_even r =
     (let f = \<lfloor>r\<rfloor> in
      if r - of_int f < 1 / 2 then f
      else if r - of_int f > 1 / 2 then f + 1
      else if even f then f else f + 1)"

definition float32_exponent :: "real \<Rightarrow> int" where
  "float32_exponent v =
     (case find (\<lambda>e. \<bar>v\<bar> < 2 powi (e + 1)) [-126..127] of
        Some e \<Rightarrow> e
      | None \<Rightarrow> 127)"

definition fround :: "real \<Rightarrow> real" where
  "fround v =
     (let ulp = 2 powi (float32_exponent v - 23)
      in of_int (round_even (v / ulp)) * ulp)"

text \<open>
  The trackers \<^verbatim>\<open>minElevation\<close> and \<^verbatim>\<open>maxElevation\<close> start at
  \<^verbatim>\<open>Infinity\<close> and \<^verbatim>\<open>-Infinity\<close>: \<open>None\<close> until the first non-boundary
  triangle.
\<close>

definition track_min :: "real option \<Rightarrow> real \<Rightarrow> real option" where
  "track_min m e = (case m of None \<Rightarrow> Some e | Some v \<Rightarrow> Some (min v e))"

definition track_max :: "real option \<Rightarrow> real \<Rightarrow> real option" where
  "track_max m e = (case m of None \<Rightarrow> Some e | Some v \<Rightarrow> Some (max v e))"

text \<open>
  The first loop of \<^verbatim>\<open>generateElevation\<close>, on the triangles still to visit. The
  trackers take the elevation as computed; the array takes it rounded.
\<close>

fun elevation_loop ::
  "VoronoiMesh \<Rightarrow> real list \<Rightarrow> real list \<Rightarrow> NoiseData \<Rightarrow> MapConfig \<Rightarrow> nat list \<Rightarrow>
   real list \<times> real option \<times> real option \<Rightarrow> real list \<times> real option \<times> real option" where
  "elevation_loop mesh cm md nd config [] st = st"
| "elevation_loop mesh cm md nd config (t # ts) (elevation_t, minElevation, maxElevation) =
     (if is_boundary_t mesh ! t
      then elevation_loop mesh cm md nd config ts (elevation_t[t := 0], minElevation, maxElevation)
      else let elevation = triangle_elevation mesh cm md nd config t
           in elevation_loop mesh cm md nd config ts
                (elevation_t[t := fround elevation],
                 track_min minElevation elevation, track_max maxElevation elevation))"

text \<open>
  \<^verbatim>\<open>generateElevation\<close>. With no non-boundary triangle \<^verbatim>\<open>range\<close> is
  \<^verbatim>\<open>-Infinity\<close>, and the test \<^verbatim>\<open>range > 0\<close> fails. The second loop reads
  the rounded value back, rescales it with the unrounded trackers and stores the
  quotient, which is rounded again.
\<close>

definition generateElevation ::
  "VoronoiMesh \<Rightarrow> real list \<Rightarrow> real list \<Rightarrow> NoiseData \<Rightarrow> MapConfig \<Rightarrow> real list" where
  "generateElevation mesh continentMask mountainDistance noiseData config =
     (case elevation_loop mesh continentMask mountainDistance noiseData config
             [0..<numTriangles mesh] (replicate (numTriangles mesh) 0, None, None) of
        (elevation_t, Some minElevation, Some maxElevation) \<Rightarrow>
          (let range = maxElevation - minElevation in
           if range > 0 then map (\<lambda>e. fround ((e - minElevation) / range)) elevation_t
           else elevation_t)
      | (elevation_t, _, _) \<Rightarrow> elevation_t)"

section \<open>Climate and hydrology (climate.ts)\<close>







text \<open>
  The inner loop of the first pass of \<^verbatim>\<open>calculateDownslope\<close>: the state is
  \<^verbatim>\<open>lowestNeighbor\<close> and \<^verbatim>\<open>lowestElevation\<close>; an elevation read out of range
  is \<^verbatim>\<open>undefined\<close> and compares false.
\<close>

fun lowest_scan :: "real list \<Rightarrow> int list \<Rightarrow> int \<times> real option \<Rightarrow> int \<times> real option" where
  "lowest_scan elevation_t [] st = st"
| "lowest_scan elevation_t (neighbor # rest) (lowestNeighbor, lowestElevation) =
     (if neighbor = -1 then lowest_scan elevation_t rest (lowestNeighbor, lowestElevation)
      else case (nth_opt elevation_t neighbor, lowestElevation) of
             (Some e, Some l) \<Rightarrow>
               if e < l then lowest_scan elevation_t rest (neighbor, Some e)
               else lowest_scan elevation_t rest (lowestNeighbor, lowestElevation)
           | _ \<Rightarrow> lowest_scan elevation_t rest (lowestNeighbor, lowestElevation))"

definition lowest_neighbor :: "VoronoiMesh \<Rightarrow> real list \<Rightarrow> nat \<Rightarrow> int" where
  "lowest_neighbor mesh elevation_t t =
     fst (lowest_scan elevation_t (neighbors mesh ! t) (-1, nth_opt elevation_t (int t)))"

text \<open>
  The loop over the neighbours of \<^verbatim>\<open>current\<close> in the sink search: \<open>Inl neighbor\<close>
  when it breaks with a path found, otherwise the queue after the pushes.
  \<^verbatim>\<open>downslope_t[neighbor] !== -1\<close> also holds when the read is out of range.
\<close>

fun scan_neighbors ::
  "real list \<Rightarrow> int list \<Rightarrow> bool list \<Rightarrow> int list \<Rightarrow> flatqueue \<Rightarrow> int + flatqueue" where
  "scan_neighbors elevation_t downslope_t visited [] queue = Inr queue"
| "scan_neighbors elevation_t downslope_t visited (neighbor # rest) queue =
     (if neighbor = -1 \<or> visited_at visited neighbor
      then scan_neighbors elevation_t downslope_t visited rest queue
      else if nth_opt downslope_t neighbor \<noteq> Some (-1) then Inl neighbor
      else scan_neighbors elevation_t downslope_t visited rest
             (queue_push queue (nat neighbor) (elevation_t ! nat neighbor)))"

text \<open>
  The \<^verbatim>\<open>while (!pathFound && queue.length > 0)\<close> loop: \<open>Some neighbor\<close> when a
  path was found, \<open>None\<close> when the queue ran empty. An id past the end of
  \<^verbatim>\<open>visited\<close> would make \<^verbatim>\<open>mesh.neighbors[current]\<close> undefined, a TypeError.
\<close>

function sink_search ::
  "VoronoiMesh \<Rightarrow> real list \<Rightarrow> int list \<Rightarrow> flatqueue \<Rightarrow> bool list \<Rightarrow> exn + int option" where
  "sink_search mesh elevation_t downslope_t queue visited =
     (case queue_pop queue of
        None \<Rightarrow> Inr None
      | Some (current, queue') \<Rightarrow>
          if current \<ge> length visited then Inl TypeError
          else if visited ! current
          then sink_search mesh elevation_t downslope_t queue' visited
          else (case scan_neighbors elevation_t downslope_t (visited[current := True])
                       (neighbors mesh ! current) queue' of
                  Inl neighbor \<Rightarrow> Inr (Some neighbor)
                | Inr queue'' \<Rightarrow>
                    sink_search mesh elevation_t downslope_t queue'' (visited[current := True])))"
  by pat_completeness auto
termination
proof (relation "measures [\<lambda>(mesh, el, ds, q, vis). length (filter Not vis),
                           \<lambda>(mesh, el, ds, q, vis). length q]", goal_cases)
  case 1
  show ?case by simp
next
  case (2 mesh el ds queue visited x2 current queue')
  have mem: "least_entry b es \<in> set (b # es)" for b :: "nat \<times> real" and es
    by (induction es arbitrary: b) auto
  have "length q' < length q" if "queue_pop q = Some (c, q')" for q q' c
  proof (cases q)
    case Nil
    with that show ?thesis by simp
  next
    case (Cons e es)
    with that have "q' = remove1 (least_entry e es) (e # es)"
      by (simp add: Let_def del: remove1.simps)
    moreover have "length (remove1 (least_entry e es) (e # es)) = length (e # es) - 1"
      using mem [of e es] by (simp only: length_remove1 if_True)
    ultimately show ?thesis using Cons by simp
  qed
  with 2 show ?case by auto
next
  case (3 mesh el ds queue visited x2 current queue' queue'')
  have "length (filter Not (vis[c := True])) < length (filter Not vis)"
    if "c < length vis" "\<not> vis ! c" for vis c
    using that
  proof (induction vis arbitrary: c)
    case Nil
    then show ?case by simp
  next
    case (Cons v vis)
    show ?case
    proof (cases c)
      case 0
      with Cons.prems show ?thesis by simp
    next
      case (Suc k)
      with Cons.prems have "k < length vis" "\<not> vis ! k" by simp_all
      from Cons.IH [OF this] Suc show ?thesis by simp
    qed
  qed
  with 3 show ?case by auto
qed

declare sink_search.simps [simp del]

text \<open>The second pass of \<^verbatim>\<open>calculateDownslope\<close>, on the triangles still to visit.\<close>

fun resolve_sinks :: "VoronoiMesh \<Rightarrow> real list \<Rightarrow> nat list \<Rightarrow> int list \<Rightarrow> exn + int list" where
  "resolve_sinks mesh elevation_t [] downslope_t = Inr downslope_t"
| "resolve_sinks mesh elevation_t (t # ts) downslope_t =
     (if downslope_t ! t = -1 then
        (case sink_search mesh elevation_t downslope_t (queue_push [] t 0)
                (replicate (numTriangles mesh) False) of
           Inl e \<Rightarrow> Inl e
         | Inr None \<Rightarrow> resolve_sinks mesh elevation_t ts downslope_t
         | Inr (Some neighbor) \<Rightarrow>
             resolve_sinks mesh elevation_t ts (downslope_t[t := neighbor]))
      else resolve_sinks mesh elevation_t ts downslope_t)"

text \<open>
  \<^verbatim>\<open>calculateDownslope\<close>. The first pass reads \<^verbatim>\<open>mesh.neighbors[t]\<close> for every
  triangle, so a missing row is a TypeError there.
\<close>

definition calculateDownslope :: "VoronoiMesh \<Rightarrow> real list \<Rightarrow> exn + int list" where
  "calculateDownslope mesh elevation_t =
     (if length (neighbors mesh) < numTriangles mesh then Inl TypeError
      else resolve_sinks mesh elevation_t [0..<numTriangles mesh]
             (map (lowest_neighbor mesh elevation_t) [0..<numTriangles mesh]))"

text \<open>
  Drainage of a triangle along \<^verbatim>\<open>downslope_t\<close>: the chain starting at \<open>t\<close> meets
  a boundary triangle or a triangle below the sea level within \<open>k\<close> steps.
\<close>

definition is_outlet :: "VoronoiMesh \<Rightarrow> real list \<Rightarrow> real \<Rightarrow> nat \<Rightarrow> bool" where
  "is_outlet mesh elevation_t seaLevel t =
     (is_boundary_t mesh ! t \<or> elevation_t ! t < seaLevel)"

fun drains_within ::
  "VoronoiMesh \<Rightarrow> real list \<Rightarrow> real \<Rightarrow> int list \<Rightarrow> nat \<Rightarrow> nat \<Rightarrow> bool" where
  "drains_within mesh elevation_t seaLevel downslope_t 0 t =
     is_outlet mesh elevation_t seaLevel t"
| "drains_within mesh elevation_t seaLevel downslope_t (Suc k) t =
     (is_outlet mesh elevation_t seaLevel t
      \<or> (0 \<le> downslope_t ! t \<and> nat (downslope_t ! t) < numTriangles mesh
         \<and> drains_within mesh elevation_t seaLevel downslope_t k (nat (downslope_t ! t))))"

text \<open>\<^verbatim>\<open>calculateFlowAccumulation\<close>: the initial flow of a triangle.\<close>

definition initial_flow :: "real list \<Rightarrow> real list \<Rightarrow> MapConfig \<Rightarrow> nat \<Rightarrow> real" where
  "initial_flow elevation_t rainfall_t config t =
     (if elevation_t ! t \<ge> cfg_seaLevel config then
        (let f = rainfall_t ! t * cfg_rivers config;
             elevationAboveSea = elevation_t ! t - cfg_seaLevel config
         in if elevationAboveSea > 0.5 then f * (1 + (elevationAboveSea - 0.5)) else f)
      else 0)"

text \<open>
  The accumulation loop, on the triangles still to visit in the sorted order. A write
  past the end of \<^verbatim>\<open>flow_t\<close> is ignored, as \<open>list_update\<close> does.
\<close>

fun accumulate_flow :: "VoronoiMesh \<Rightarrow> int list \<Rightarrow> nat list \<Rightarrow> real list \<Rightarrow> real list" where
  "accumulate_flow mesh downslope_t [] flow_t = flow_t"
| "accumulate_flow mesh downslope_t (t # ts) flow_t =
     (let downstream = downslope_t ! t in
      if downstream \<ge> 0 \<and> \<not> is_boundary_t mesh ! t
      then accumulate_flow mesh downslope_t ts
             (flow_t[nat downstream := flow_t ! nat downstream + flow_t ! t])
      else accumulate_flow mesh downslope_t ts flow_t)"

text \<open>
  The \<^verbatim>\<open>while (true)\<close> loop that traces a river: \<open>Some path\<close> when it breaks with
  \<^verbatim>\<open>isValid\<close> still true, \<open>None\<close> when a cycle made the path invalid. A successor
  past the end of the arrays is neither boundary nor below the sea, is pushed, and the
  trace then runs on \<^verbatim>\<open>undefined\<close>, which it meets twice: invalid as well.
\<close>

function trace_river ::
  "VoronoiMesh \<Rightarrow> real list \<Rightarrow> real \<Rightarrow> int list \<Rightarrow> nat list \<Rightarrow> nat \<Rightarrow> nat list option" where
  "trace_river mesh elevation_t seaLevel downslope_t path current =
     (let next = downslope_t ! current in
      if next < 0 then Some path
      else if nat next \<ge> numTriangles mesh then None
      else if is_boundary_t mesh ! nat next then Some path
      else if elevation_t ! nat next < seaLevel then Some path
      else if nat next \<in> set path then None
      else trace_river mesh elevation_t seaLevel downslope_t (path @ [nat next]) (nat next))"
  by pat_completeness auto
termination
proof (relation "measure (\<lambda>(mesh, el, sea, ds, path, current).
                   card ({..<numTriangles mesh} - set path))", goal_cases)
  case 1
  show ?case by simp
next
  case (2 mesh el sea ds path current nxt)
  then have "nat nxt \<in> {..<numTriangles mesh} - set path" by simp
  then have "{..<numTriangles mesh} - set (path @ [nat nxt])
      \<subset> {..<numTriangles mesh} - set path"
    by auto
  then show ?case by (simp add: psubset_card_mono)
qed

declare trace_river.simps [simp del]

text \<open>The body of the loop over the river sources, with \<^verbatim>\<open>riverSourceThreshold = 0.1\<close>.\<close>

definition trace_source ::
  "VoronoiMesh \<Rightarrow> real list \<Rightarrow> real \<Rightarrow> int list \<Rightarrow> real list \<Rightarrow> nat \<Rightarrow> RiverPath list" where
  "trace_source mesh elevation_t seaLevel downslope_t flow_t t =
     (let riverSourceThreshold = 0.1 in
      if elevation_t ! t \<ge> seaLevel \<and> flow_t ! t \<ge> riverSourceThreshold \<and> elevation_t ! t > 0.5
      then (case trace_river mesh elevation_t seaLevel downslope_t [t] t of
              Some path \<Rightarrow>
                if length path > 3
                then [\<lparr>rp_triangles = path, sourceTriangle = t, flow = flow_t ! t\<rparr>]
                else []
            | None \<Rightarrow> [])
      else [])"

record FlowResult =
  fr_flow_t :: "real list"
  riverPaths :: "RiverPath list"

text \<open>
  \<^verbatim>\<open>calculateFlowAccumulation\<close>. Both sorts are stable and descending, as
  \<open>sort_key\<close> on the negated key is. Nothing in the \<^verbatim>\<open>try\<close> block throws on
  arrays and a mesh of these types, so the \<^verbatim>\<open>catch\<close> block has no branch here.
\<close>

definition calculateFlowAccumulation ::
  "VoronoiMesh \<Rightarrow> real list \<Rightarrow> real list \<Rightarrow> int list \<Rightarrow> MapConfig \<Rightarrow> FlowResult" where
  "calculateFlowAccumulation mesh elevation_t rainfall_t downslope_t config =
     (let n = numTriangles mesh;
          seaLevel = cfg_seaLevel config;
          flow0 = map (initial_flow elevation_t rainfall_t config) [0..<n];
          trianglesByElevation = sort_key (\<lambda>t. - elevation_t ! t) [0..<n];
          flow_t = accumulate_flow mesh downslope_t trianglesByElevation flow0;
          paths = concat (map (trace_source mesh elevation_t seaLevel downslope_t flow_t) [0..<n]);
          sorted = sort_key (\<lambda>r. - flow r) paths;
          maxRivers = 100
      in \<lparr>fr_flow_t = flow_t, riverPaths = take maxRivers sorted\<rparr>)"

text \<open>
  A path follows \<^verbatim>\<open>downslope_t\<close>: each entry but the first is the downslope of
  the entry before it.
\<close>

definition linked :: "int list \<Rightarrow> nat list \<Rightarrow> bool" where
  "linked downslope_t p = (\<forall>i. Suc i < length p \<longrightarrow> int (p ! Suc i) = downslope_t ! (p ! i))"

section \<open>Biome assignment (biomes.ts)\<close>

text \<open>
  \<^verbatim>\<open>hasNeighborBelow\<close>. When \<^verbatim>\<open>mesh.neighbors[t]\<close> is missing the
  \<^verbatim>\<open>for ... of\<close> throws a TypeError: \<open>None\<close>.
\<close>

definition hasNeighborBelow :: "VoronoiMesh \<Rightarrow> nat \<Rightarrow> real list \<Rightarrow> real \<Rightarrow> bool option" where
  "hasNeighborBelow mesh t elevation_t seaLevel =
     (if t < length (neighbors mesh)
      then Some (list_ex (\<lambda>neighbor. neighbor \<noteq> -1 \<and> lt_undef (nth_opt elevation_t neighbor) seaLevel)
                   (neighbors mesh ! t))
      else None)"

text \<open>
  The water branch. With \<^verbatim>\<open>seaLevel = 0\<close> and a negative elevation the quotient
  \<^verbatim>\<open>(seaLevel - elevation) / seaLevel\<close> is \<^verbatim>\<open>+Infinity\<close> in JavaScript, so all
  three tests fail (in HOL the quotient would be 0).
\<close>

definition waterBiome :: "real \<Rightarrow> real \<Rightarrow> BiomeType" where
  "waterBiome elevation seaLevel =
     (if seaLevel = 0 then DEEP_OCEAN
      else let depthRatio = (seaLevel - elevation) / seaLevel in
        if depthRatio < 0.1 then SHALLOW_WATER
        else if depthRatio < 0.3 then SHALLOW_OCEAN
        else if depthRatio < 0.7 then OCEAN
        else DEEP_OCEAN)"

definition lowlandBiome :: "real \<Rightarrow> real \<Rightarrow> BiomeType" where
  "lowlandBiome moisture temperature =
     (if temperature < 0.2 then (if moisture < 0.4 then TUNDRA else TAIGA)
      else if temperature < 0.6 then
        (if moisture < 0.3 then TEMPERATE_DESERT
         else if moisture < 0.5 then GRASSLAND
         else if moisture < 0.7 then TEMPERATE_DECIDUOUS_FOREST
         else TEMPERATE_RAIN_FOREST)
      else
        (if moisture < 0.3 then SUBTROPICAL_DESERT
         else if moisture < 0.5 then GRASSLAND
         else if moisture < 0.7 then TROPICAL_SEASONAL_FOREST
         else TROPICAL_RAIN_FOREST))"

text \<open>
  The body of the loop of \<^verbatim>\<open>assignBiomes\<close> for one triangle; \<open>None\<close> when it
  throws.
\<close>

definition biome_of_triangle ::
  "VoronoiMesh \<Rightarrow> real list \<Rightarrow> real list \<Rightarrow> real list \<Rightarrow> real \<Rightarrow> nat \<Rightarrow> BiomeType option" where
  "biome_of_triangle mesh elevation_t moisture_t temperature_t seaLevel t =
     (let elevation = elevation_t ! t;
          moisture = moisture_t ! t;
          temperature = temperature_t ! t
      in if is_boundary_t mesh ! t then Some OCEAN
         else if elevation < seaLevel then Some (waterBiome elevation seaLevel)
         else let elevationAboveSea = elevation - seaLevel in
           if elevationAboveSea > 0.7 then
             Some (if temperature < 0.2 then SNOW
                   else if temperature < 0.4 then TUNDRA
                   else MOUNTAIN)
           else if elevationAboveSea > 0.4 then
             Some (if temperature < 0.2 then TUNDRA
                   else if temperature < 0.5 then
                     (if moisture < 0.4 then SHRUBLAND else TAIGA)
                   else if moisture < 0.4 then TEMPERATE_DESERT
                   else if moisture < 0.7 then TEMPERATE_DECIDUOUS_FOREST
                   else TEMPERATE_RAIN_FOREST)
           else
             (case hasNeighborBelow mesh t elevation_t seaLevel of
                None \<Rightarrow> None
              | Some isCoastal \<Rightarrow>
                  Some (if isCoastal \<and> elevationAboveSea < 0.05 then BEACH
                        else lowlandBiome moisture temperature)))"

text \<open>
  \<^verbatim>\<open>assignBiomes\<close>: the \<^verbatim>\<open>catch\<close> block replaces the whole result by an
  all-OCEAN array when any iteration throws.
\<close>

definition assignBiomes ::
  "VoronoiMesh \<Rightarrow> real list \<Rightarrow> real list \<Rightarrow> real list \<Rightarrow> real \<Rightarrow> BiomeType list" where
  "assignBiomes mesh elevation_t moisture_t temperature_t seaLevel =
     (let rs = map (biome_of_triangle mesh elevation_t moisture_t temperature_t seaLevel)
                   [0..<numTriangles mesh]
      in if list_all (\<lambda>r. r \<noteq> None) rs then map the rs
         else replicate (numTriangles mesh) OCEAN)"

section \<open>Rasterization (terrain.ts, climate.ts, biomes.ts)\<close>












section \<open>The pipeline (index.ts)\<close>




section \<open>Example inputs\<close>

text \<open>A mesh given by its neighbour table, boundary flags and centroids.\<close>

definition mesh_of :: "int list list \<Rightarrow> bool list \<Rightarrow> Point list \<Rightarrow> real \<Rightarrow> real \<Rightarrow> VoronoiMesh" where
  "mesh_of nbs bnd cs w h =
     \<lparr>mesh_points = [], triangles = [], halfedges = [], numPoints = 0,
      numTriangles = length nbs, numHalfedges = 3 * length nbs, is_boundary_t = bnd,
      mesh_width = w, mesh_height = h, neighbors = nbs, triangleCenters = cs\<rparr>"

text \<open>
  The unit square cut along a diagonal: the two triangles (0, 1, 2) and (0, 2, 3), whose
  halfedges 2 and 3 are opposite. \<open>square_delaunator\<close> stands for the library on this
  one input.
\<close>

definition square_points :: PointsData where
  "square_points =
     \<lparr>points = [\<lparr>pt_x = 0, pt_y = 0\<rparr>, \<lparr>pt_x = 1, pt_y = 0\<rparr>,
                \<lparr>pt_x = 1, pt_y = 1\<rparr>, \<lparr>pt_x = 0, pt_y = 1\<rparr>],
      mountainPoints = []\<rparr>"

definition square_delaunay :: Delaunay where
  "square_delaunay =
     \<lparr>dl_triangles = [0, 1, 2, 0, 2, 3], dl_halfedges = [-1, -1, 3, 2, -1, -1]\<rparr>"

definition square_delaunator :: delaunator where
  "square_delaunator coords =
     (if coords = [0, 0, 1, 0, 1, 1, 0, 1] then Inr square_delaunay
      else Inl (Library_error ''not the unit square''))"

text \<open>
  Three triangles in a row, the first on the boundary, with centroids on the middle line
  of a 4 by 2 map; noise tables that leave the continent mask alone.
\<close>

definition mesh_three :: VoronoiMesh where
  "mesh_three =
     mesh_of [[1, -1, -1], [0, 2, 2], [1, 1, 1]] [True, False, False]
       [\<lparr>pt_x = 1, pt_y = 1\<rparr>, \<lparr>pt_x = 2, pt_y = 1\<rparr>, \<lparr>pt_x = 3, pt_y = 1\<rparr>] 4 2"

definition flat_noise :: NoiseData where
  "flat_noise =
     \<lparr>nd_elevation = replicate 1024 0, nd_moisture = replicate 1024 0,
      nd_waterNoise = replicate 1024 1, nd_roughness = replicate 1024 0\<rparr>"

definition default_config :: MapConfig where
  "default_config =
     \<lparr>cfg_seed = ''alpha'', cfg_width = 4, cfg_height = 2, cfg_seaLevel = 0.4,
      cfg_biomeDensity = 1, cfg_mountainFrequency = 0.5, cfg_hillFrequency = 0.5,
      cfg_islandFrequency = 0.5, cfg_pointDeviation = 0.4, cfg_oceanRatio = 0.5,
      cfg_jaggedness = 0.5, cfg_mountainHeight = 0.5, cfg_windAngleDeg = 0,
      cfg_raininess = 1, cfg_rainShadow = 1, cfg_evaporation = 1, cfg_riverWidth = 0.2,
      cfg_rivers = 0.5, cfg_riverMinFlow = 0.02, cfg_showVoronoi = False,
      cfg_lighting = \<lparr>enabled = False, azimuth = 0, angle = 0, intensity = 0\<rparr>\<rparr>"

text \<open>
  A basin: triangle 0 lies lower than its neighbours 1, 2 and 3, and triangle 1 lower than
  its other neighbours 4 and 5. Triangles 0 and 1 are interior, the others on the boundary.
\<close>

definition mesh_basin :: VoronoiMesh where
  "mesh_basin =
     mesh_of [[1, 2, 3], [0, 4, 5], [0, -1, -1], [0, -1, -1], [1, -1, -1], [1, -1, -1]]
       [False, False, True, True, True, True] [] 4 2"

definition elevation_basin :: "real list" where
  "elevation_basin = [0.5, 0.6, 0.9, 0.9, 0.9, 0.9]"

text \<open>
  A plateau: the boundary triangles 0 and 1 lie at the same height, and the way down from
  triangle 1 leads over the higher triangle 2 to 3, 4 and the sea at 5. Rain falls on
  triangle 0 only.
\<close>

definition mesh_plateau :: VoronoiMesh where
  "mesh_plateau =
     mesh_of [[1, -1, -1], [0, 2, -1], [1, 3, 6], [2, 4, 7], [3, 5, 8],
              [4, -1, -1], [2, -1, -1], [3, -1, -1], [4, -1, -1]]
       [True, True, False, False, False, True, True, True, True] [] 4 2"

definition elevation_plateau :: "real list" where
  "elevation_plateau = [0.8, 0.8, 0.95, 0.7, 0.6, 0, 0.97, 0.97, 0.97]"

definition rainfall_plateau :: "real list" where
  "rainfall_plateau = [1, 0, 0, 0, 0, 0, 0, 0, 0]"

text \<open>
  Stand-ins for the parameters: a noise library whose noise is constantly 0, and
  \<^verbatim>\<open>Math.random()\<close> returning always 1/2 or always 3/4.
\<close>

definition noise_zero :: createNoise2D where
  "noise_zero rng = (\<lambda>a b. 0)"

definition random_half :: "nat \<Rightarrow> real" where
  "random_half k = 1 / 2"

definition random_three_quarters :: "nat \<Rightarrow> real" where
  "random_three_quarters k = 3 / 4"

text \<open>
  Configurations: a 1 by 1 map with the derived cell size 1 and with the derived cell size
  1/2, and a 4 by 4 map with cell size 2, which has a single interior grid site.
\<close>

definition config_density_30 :: MapConfig where
  "config_density_30 = default_config\<lparr>cfg_width := 1, cfg_height := 1, cfg_biomeDensity := 30\<rparr>"

definition config_density_120 :: MapConfig where
  "config_density_120 = default_config\<lparr>cfg_width := 1, cfg_height := 1, cfg_biomeDensity := 120\<rparr>"

definition config_one_site :: MapConfig where
  "config_one_site = default_config\<lparr>cfg_width := 4, cfg_height := 4, cfg_biomeDensity := 7.5\<rparr>"









text \<open>Two triangles sharing an edge; the second is given all three neighbours.\<close>

definition mesh_two :: VoronoiMesh where
  "mesh_two =
     mesh_of [[1, -1, -1], [0, 0, 0]] [True, False]
       [\<lparr>pt_x = 1, pt_y = 1\<rparr>, \<lparr>pt_x = 2, pt_y = 1\<rparr>] 4 2"

section \<open>Properties\<close>

subsection \<open>Mesh symmetry\<close>


lemma row_update_length:
  "t < length nbs \<Longrightarrow> length (nbs[i := (nbs ! i)[j := v]] ! t) = length (nbs ! t)"
  by (cases "t = i") simp_all

lemma analyse_halfedges_shape:
  "analyse_halfedges h es (nbs, bnd) = Inr (nbs', bnd') \<Longrightarrow>
   length nbs' = length nbs \<and> (\<forall>t < length nbs. length (nbs' ! t) = length (nbs ! t))"
proof (induction es arbitrary: nbs bnd)
  case Nil
  then show ?case by simp
next
  case (Cons e es)
  show ?case
  proof (cases "h ! e \<ge> 0")
    case True
    with Cons.prems have lt: "e div 3 < length nbs"
      by (auto simp: Let_def split: if_splits)
    with Cons.prems True have
      "analyse_halfedges h es (nbs[e div 3 := (nbs ! (e div 3))[e mod 3 := h ! e div 3]], bnd) = Inr (nbs', bnd')"
      by (simp add: Let_def)
    from Cons.IH [OF this] show ?thesis
      by (simp add: row_update_length)
  next
    case False
    with Cons.prems have
      "analyse_halfedges h es (nbs, bnd[e div 3 := True]) = Inr (nbs', bnd')"
      by (simp add: Let_def)
    from Cons.IH [OF this] show ?thesis .
  qed
qed

lemma analyse_halfedges_entry:
  "analyse_halfedges h es (nbs, bnd) = Inr (nbs', bnd') \<Longrightarrow>
   t < length nbs \<Longrightarrow> j < 3 \<Longrightarrow> j < length (nbs ! t) \<Longrightarrow>
   nbs' ! t ! j = (if 3 * t + j \<in> set es \<and> h ! (3 * t + j) \<ge> 0
                   then h ! (3 * t + j) div 3 else nbs ! t ! j)"
proof (induction es arbitrary: nbs bnd)
  case Nil
  then show ?case by simp
next
  case (Cons e es)
  have e_eq: "3 * t + j = e \<longleftrightarrow> t = e div 3 \<and> j = e mod 3"
    using Cons.prems(3) by auto
  show ?case
  proof (cases "h ! e \<ge> 0")
    case True
    with Cons.prems have lt: "e div 3 < length nbs"
      by (auto simp: Let_def split: if_splits)
    let ?nbs1 = "nbs[e div 3 := (nbs ! (e div 3))[e mod 3 := h ! e div 3]]"
    from Cons.prems True lt have
      run: "analyse_halfedges h es (?nbs1, bnd) = Inr (nbs', bnd')"
      by (simp add: Let_def)
    have l1: "t < length ?nbs1" using Cons.prems(2) by simp
    have l2: "j < length (?nbs1 ! t)" using Cons.prems(2,4) by (simp add: row_update_length)
    have cur: "?nbs1 ! t ! j = (if 3 * t + j = e then h ! e div 3 else nbs ! t ! j)"
      using Cons.prems(2,4) lt e_eq by (auto simp: nth_list_update)
    from Cons.IH [OF run l1 Cons.prems(3) l2] cur True show ?thesis
      by auto
  next
    case False
    with Cons.prems have
      run: "analyse_halfedges h es (nbs, bnd[e div 3 := True]) = Inr (nbs', bnd')"
      by (simp add: Let_def)
    from Cons.IH [OF run Cons.prems(2,3,4)] False show ?thesis by auto
  qed
qed


lemma createMesh_Inr:
  assumes "createMesh Delaunator pd w h = Inr mesh"
  obtains d bnd where
    "Delaunator (flatten_points pd) = Inr d"
    "length (dl_triangles d) mod 3 = 0"
    "numTriangles mesh = length (dl_triangles d) div 3"
    "analyse_halfedges (dl_halfedges d) [0..<length (dl_halfedges d)]
       (replicate (numTriangles mesh) [-1, -1, -1], replicate (numTriangles mesh) False)
     = Inr (neighbors mesh, bnd)"
  using assms
  by (auto simp: createMesh_def Let_def split: sum.splits if_splits prod.splits)

lemma createMesh_neighbors_entry:
  assumes run: "analyse_halfedges hs [0..<length hs]
       (replicate n [-1, -1, -1], replicate n False) = Inr (nbs, bnd)"
    and len: "length hs = 3 * n" and t: "t < n" and j: "j < 3"
  shows "nbs ! t ! j = (if hs ! (3 * t + j) \<ge> 0 then hs ! (3 * t + j) div 3 else -1)"
proof -
  have "3 * t + j \<in> set [0..<length hs]" using len t j by simp
  moreover have "[-1, -1, -1 :: int] ! j = -1"
    using j by (auto simp: nth_Cons' )
  ultimately show ?thesis
    using analyse_halfedges_entry [OF run, of t j] t j by simp
qed

lemma createMesh_neighbors_row:
  assumes run: "analyse_halfedges hs es
       (replicate n [-1, -1, -1], replicate n False) = Inr (nbs, bnd)"
    and t: "t < n"
  shows "length (nbs ! t) = 3"
  using analyse_halfedges_shape [OF run] t by simp

lemma neighbors_back:
  assumes run: "analyse_halfedges hs [0..<length hs]
       (replicate n [-1, -1, -1], replicate n False) = Inr (nbs, bnd)"
    and len: "length hs = 3 * n"
    and ok: "list_all (halfedge_ok hs) [0..<length hs]"
    and t: "t < n" and u: "int u \<in> set (nbs ! t)"
  shows "u < n \<and> int t \<in> set (nbs ! u)"
proof -
  from u obtain j where j: "j < length (nbs ! t)" and nj: "nbs ! t ! j = int u"
    by (auto simp: in_set_conv_nth)
  from createMesh_neighbors_row [OF run t] j have j3: "j < 3" by simp
  let ?e = "3 * t + j"
  have e: "?e < length hs" using len t j3 by simp
  from createMesh_neighbors_entry [OF run len t j3] nj
  have pos: "hs ! ?e \<ge> 0" and udiv: "hs ! ?e div 3 = int u"
    by (auto split: if_splits)
  from ok e have "halfedge_ok hs ?e" by (simp add: list_all_iff)
  with pos have olt: "nat (hs ! ?e) < length hs" and opp_back: "hs ! nat (hs ! ?e) = int ?e"
    by (auto simp: halfedge_ok_def)
  define opp where "opp = nat (hs ! ?e)"
  have opp_int: "int opp = hs ! ?e" using pos by (simp add: opp_def)
  have u_eq: "u = opp div 3" using udiv opp_int
    by (metis nat_int of_nat_numeral zdiv_int)
  have un: "u < n" using olt len u_eq by (simp add: opp_def)
  have m3: "opp mod 3 < 3" by simp
  have dec: "3 * u + opp mod 3 = opp" using u_eq by simp
  from createMesh_neighbors_entry [OF run len un m3] opp_back
  have "nbs ! u ! (opp mod 3) = int t"
    using j3 by (simp add: dec opp_def [symmetric] del: of_nat_add of_nat_mult)
  moreover have "opp mod 3 < length (nbs ! u)"
    using createMesh_neighbors_row [OF run un] by simp
  ultimately show ?thesis using un by (metis nth_mem)
qed

text \<open>
  Claim C9. In every mesh that createMesh returns for a triangulation satisfying
  Delaunator's halfedge contract, and for all triangles t and u, u is an entry of
  neighbors(t) if and only if t is an entry of neighbors(u).
\<close>

theorem createMesh_neighbors_symmetric:
  assumes "createMesh Delaunator pd w h = Inr mesh"
    and "Delaunator (flatten_points pd) = Inr d" and "delaunay_contract d"
    and "t < numTriangles mesh" and "u < numTriangles mesh"
  shows "int u \<in> set (neighbors mesh ! t) \<longleftrightarrow> int t \<in> set (neighbors mesh ! u)"
proof -
  from createMesh_Inr [OF assms(1)] assms(2) obtain bnd where
    m3: "length (dl_triangles d) mod 3 = 0"
    and n: "numTriangles mesh = length (dl_triangles d) div 3"
    and run: "analyse_halfedges (dl_halfedges d) [0..<length (dl_halfedges d)]
       (replicate (numTriangles mesh) [-1, -1, -1], replicate (numTriangles mesh) False)
     = Inr (neighbors mesh, bnd)"
    by (metis sum.inject(2))
  from assms(3) have len: "length (dl_halfedges d) = 3 * numTriangles mesh"
    using m3 n by (auto simp: delaunay_contract_def)
  from assms(3) have ok: "list_all (halfedge_ok (dl_halfedges d)) [0..<length (dl_halfedges d)]"
    unfolding delaunay_contract_def by blast
  show ?thesis
    using neighbors_back [OF run len ok assms(4), of u]
      neighbors_back [OF run len ok assms(5), of t]
    by blast
qed

theorem createMesh_neighbors_symmetric_witness:
  "\<exists>mesh. createMesh square_delaunator square_points 1 1 = Inr mesh
     \<and> square_delaunator (flatten_points square_points) = Inr square_delaunay
     \<and> delaunay_contract square_delaunay
     \<and> numTriangles mesh = 2
     \<and> int 1 \<in> set (neighbors mesh ! 0) \<and> int 0 \<in> set (neighbors mesh ! 1)"
proof -
  have flat: "square_delaunator (flatten_points square_points) = Inr square_delaunay"
    by (simp add: square_delaunator_def flatten_points_def square_points_def)
  have c: "delaunay_contract square_delaunay"
    by (simp add: delaunay_contract_def square_delaunay_def halfedge_ok_def upt_conv_Cons)
  obtain mesh where m: "createMesh square_delaunator square_points 1 1 = Inr mesh"
    and n: "numTriangles mesh = 2" and one: "int 1 \<in> set (neighbors mesh ! 0)"
    by (simp add: createMesh_def flat Let_def square_delaunay_def upt_conv_Cons)
  from createMesh_neighbors_symmetric [OF m flat c, of 0 1] n one
  have "int 0 \<in> set (neighbors mesh ! 1)" by simp
  with m flat c n one show ?thesis by blast
qed

subsection \<open>Elevation normalisation\<close>

text \<open>
  Claim C2: the code departs from it. The mesh below has one boundary triangle and two
  non-boundary triangles, whose raw elevations are 0.3 and 0.6. generateElevation stores
  0 for the boundary triangle, leaves it out of the minimum, and then rescales it with
  the others: it comes out as (0 - 0.3) / 0.3 = -1. The two non-boundary triangles come
  out as 11184811 / 2 ^ 48 (about 3.97e-8) and 1 + 1 / 2 ^ 23 instead of 0 and 1: the array
  holds the raw elevations rounded to 32-bit floats, the minimum and the maximum are
  taken before the rounding. So the minimum over all triangles is below 0 and the
  maximum is above 1.
\<close>

theorem generateElevation_not_normalized:
  "elevation_inputs_ok mesh_three [0, 0.5, 1] [1, 1, 1] flat_noise
   \<and> is_boundary_t mesh_three ! 0
   \<and> \<not> is_boundary_t mesh_three ! 1 \<and> \<not> is_boundary_t mesh_three ! 2
   \<and> triangle_elevation mesh_three [0, 0.5, 1] [1, 1, 1] flat_noise default_config 1 = 0.3
   \<and> triangle_elevation mesh_three [0, 0.5, 1] [1, 1, 1] flat_noise default_config 2 = 0.6
   \<and> generateElevation mesh_three [0, 0.5, 1] [1, 1, 1] flat_noise default_config
       = [-1, 11184811 / 2 ^ 48, 1 + 1 / 2 ^ 23]
   \<and> Min (set (generateElevation mesh_three [0, 0.5, 1] [1, 1, 1] flat_noise default_config)) < 0
   \<and> 1 < Max (set (generateElevation mesh_three [0, 0.5, 1] [1, 1, 1] flat_noise default_config))"
proof -
  let ?raw = "triangle_elevation mesh_three [0, 0.5, 1] [1, 1, 1] flat_noise default_config"
  have r: "?raw 1 = 0.3" "?raw 2 = 0.6"
    by (simp_all add: triangle_elevation_def mesh_three_def mesh_of_def flat_noise_def
        default_config_def Let_def)
  have rs: "triangle_elevation mesh_three [0, 1 / 2, 1] [1, 1, 1] flat_noise default_config
              (Suc 0) = 3 / 10"
    "triangle_elevation mesh_three [0, 1 / 2, 1] [1, 1, 1] flat_noise default_config
       (Suc (Suc 0)) = 3 / 5"
    by (simp_all add: triangle_elevation_def mesh_three_def mesh_of_def flat_noise_def
        default_config_def Let_def)
  have b: "is_boundary_t mesh_three ! 0" "\<not> is_boundary_t mesh_three ! 1"
    "\<not> is_boundary_t mesh_three ! 2"
    by (simp_all add: mesh_three_def mesh_of_def)
  have bs: "\<not> is_boundary_t mesh_three ! Suc 0" "\<not> is_boundary_t mesh_three ! Suc (Suc 0)"
    "numTriangles mesh_three = 3"
    by (simp_all add: mesh_three_def mesh_of_def)
  have f3: "fround (3 / 10) = 5033165 / 16777216"
    by (simp add: fround_def float32_exponent_def round_even_def upto_rec1 Let_def)
  have f6: "fround (3 / 5) = 5033165 / 8388608"
    by (simp add: fround_def float32_exponent_def round_even_def upto_rec1 Let_def)
  have loop: "elevation_loop mesh_three [0, 0.5, 1] [1, 1, 1] flat_noise default_config
                [0..<3] (replicate 3 0, None, None)
              = ([0, 5033165 / 16777216, 5033165 / 8388608], Some (3 / 10), Some (3 / 5))"
    by (simp add: upt_conv_Cons numeral_3_eq_3 b(1) bs rs f3 f6 track_min_def track_max_def
        Let_def)
  have n0: "fround (- 1) = - 1"
    by (simp add: fround_def float32_exponent_def round_even_def upto_rec1 Let_def)
  have n1: "fround ((5033165 / 16777216 - 3 / 10) / (3 / 5 - 3 / 10)) = 11184811 / 2 ^ 48"
    by (simp add: fround_def float32_exponent_def round_even_def upto_rec1 Let_def)
  have n2: "fround ((5033165 / 8388608 - 3 / 10) / (3 / 5 - 3 / 10)) = 1 + 1 / 2 ^ 23"
    by (simp add: fround_def float32_exponent_def round_even_def upto_rec1 Let_def)
  have gen: "generateElevation mesh_three [0, 0.5, 1] [1, 1, 1] flat_noise default_config
             = [fround (- 1),
                fround ((5033165 / 16777216 - 3 / 10) / (3 / 5 - 3 / 10)),
                fround ((5033165 / 8388608 - 3 / 10) / (3 / 5 - 3 / 10))]"
    unfolding generateElevation_def bs(3) loop by (simp add: Let_def)
  have ok: "elevation_inputs_ok mesh_three [0, 0.5, 1] [1, 1, 1] flat_noise"
    by (simp add: elevation_inputs_ok_def mesh_three_def mesh_of_def flat_noise_def)
  show ?thesis unfolding gen n0 n1 n2 using ok b r by simp
qed

subsection \<open>Drainage\<close>


lemma basin_never_drains:
  "\<not> drains_within mesh_basin elevation_basin 0.4 [1, 0, 0, 0, 1, 1] k 0
   \<and> \<not> drains_within mesh_basin elevation_basin 0.4 [1, 0, 0, 0, 1, 1] k 1"
proof (induction k)
  case 0
  show ?case
    by (simp add: is_outlet_def mesh_basin_def mesh_of_def elevation_basin_def)
next
  case (Suc k)
  then show ?case
    by (simp add: is_outlet_def mesh_basin_def mesh_of_def elevation_basin_def)
qed

text \<open>
  Claim C3 fails on the basin: triangle 0 is a sink, the search started there meets its
  neighbour 1 first, whose downslope is 0 itself, and routes 0 to 1. The chain from the
  land triangle 0 is 0, 1, 0, 1, ... and meets neither the sea nor the boundary.
\<close>

theorem calculateDownslope_basin_cycle:
  "calculateDownslope mesh_basin elevation_basin = Inr [1, 0, 0, 0, 1, 1]
   \<and> \<not> is_boundary_t mesh_basin ! 0 \<and> elevation_basin ! 0 \<ge> 0.4
   \<and> (\<forall>k. \<not> drains_within mesh_basin elevation_basin 0.4 [1, 0, 0, 0, 1, 1] k 0)"
proof -
  have "calculateDownslope mesh_basin elevation_basin = Inr [1, 0, 0, 0, 1, 1]"
    by (simp add: calculateDownslope_def mesh_basin_def mesh_of_def elevation_basin_def
      lowest_neighbor_def nth_opt_def visited_at_def queue_push_def upt_conv_Cons Let_def sink_search.simps)
  moreover have "\<not> is_boundary_t mesh_basin ! 0" "elevation_basin ! 0 \<ge> 0.4"
    by (simp_all add: mesh_basin_def mesh_of_def elevation_basin_def)
  ultimately show ?thesis using basin_never_drains by blast
qed

lemma plateau_downslope:
  "calculateDownslope mesh_plateau elevation_plateau = Inr [2, 0, 3, 4, 5, 4, 2, 3, 4]"
  by (simp add: calculateDownslope_def mesh_plateau_def mesh_of_def elevation_plateau_def
      lowest_neighbor_def nth_opt_def visited_at_def queue_push_def upt_conv_Cons Let_def sink_search.simps)

lemma plateau_rivers:
  "riverPaths (calculateFlowAccumulation mesh_plateau elevation_plateau rainfall_plateau
       [2, 0, 3, 4, 5, 4, 2, 3, 4] default_config)
   = [\<lparr>rp_triangles = [0, 2, 3, 4], sourceTriangle = 0, flow = 1 / 2\<rparr>]"
  by (simp add: calculateFlowAccumulation_def mesh_plateau_def mesh_of_def elevation_plateau_def
      rainfall_plateau_def default_config_def initial_flow_def trace_source_def
      upt_conv_Cons Let_def trace_river.simps)


subsection \<open>River paths\<close>


lemma linked_snoc:
  assumes "linked ds p" and "p \<noteq> []" and "int x = ds ! last p"
  shows "linked ds (p @ [x])"
  unfolding linked_def
proof (intro allI impI)
  fix i assume i: "Suc i < length (p @ [x])"
  show "int ((p @ [x]) ! Suc i) = ds ! ((p @ [x]) ! i)"
  proof (cases "Suc i < length p")
    case True
    with assms(1) show ?thesis by (simp add: linked_def nth_append)
  next
    case False
    with i have e: "Suc i = length p" by simp
    then have i': "i = length p - 1" by simp
    have "(p @ [x]) ! Suc i = x" using e by (simp add: nth_append)
    moreover have "(p @ [x]) ! i = last p"
      using assms(2) i' e by (simp add: nth_append last_conv_nth)
    ultimately have "(p @ [x]) ! Suc i = x" and "(p @ [x]) ! i = last p" by blast+
    with assms(3) show ?thesis by simp
  qed
qed

lemma trace_river_invariant:
  "trace_river mesh el sea ds path current = Some p \<Longrightarrow>
   path \<noteq> [] \<Longrightarrow> last path = current \<Longrightarrow> distinct path \<Longrightarrow> linked ds path \<Longrightarrow>
   \<forall>x \<in> set path. x < numTriangles mesh \<Longrightarrow>
   distinct p \<and> linked ds p \<and> (\<forall>x \<in> set p. x < numTriangles mesh)"
proof (induction mesh el sea ds path current rule: trace_river.induct)
  case (1 mesh el sea ds path current)
  let ?next = "ds ! current"
  show ?case
  proof (cases "?next < 0 \<or> is_boundary_t mesh ! nat ?next \<or> el ! nat ?next < sea")
    case True
    with "1.prems"(1) have "p = path"
      by (subst (asm) trace_river.simps) (auto simp: Let_def split: if_splits)
    with "1.prems" show ?thesis by simp
  next
    case False
    with "1.prems"(1) have c: "\<not> ?next < 0" "\<not> numTriangles mesh \<le> nat ?next"
      "\<not> is_boundary_t mesh ! nat ?next" "\<not> el ! nat ?next < sea" "nat ?next \<notin> set path"
      and run: "trace_river mesh el sea ds (path @ [nat ?next]) (nat ?next) = Some p"
      by (subst (asm) trace_river.simps; auto simp: Let_def split: if_splits)+
    have "int (nat ?next) = ds ! last path" using c(1) "1.prems"(3) by simp
    then have l: "linked ds (path @ [nat ?next])"
      using linked_snoc [OF "1.prems"(5) "1.prems"(2)] by blast
    have d: "distinct (path @ [nat ?next])" using c(5) "1.prems"(4) by simp
    have b: "\<forall>x \<in> set (path @ [nat ?next]). x < numTriangles mesh"
      using c(2) "1.prems"(6) by auto
    show ?thesis
      using "1.IH" [OF refl c run _ _ d l b] by simp
  qed
qed


lemma lowest_scan_member:
  "fst (lowest_scan el nbs (l, le)) = l \<or> fst (lowest_scan el nbs (l, le)) \<in> set nbs"
proof (induction nbs arbitrary: l le)
  case Nil
  show ?case by simp
next
  case (Cons nb nbs)
  show ?case
    using Cons [of l le] Cons [of nb "nth_opt el nb"]
    by (auto split: option.splits)
qed

lemma lowest_neighbor_member:
  "lowest_neighbor mesh el t \<noteq> -1 \<Longrightarrow> lowest_neighbor mesh el t \<in> set (neighbors mesh ! t)"
  using lowest_scan_member [of el "neighbors mesh ! t" "-1" "nth_opt el (int t)"]
  by (simp add: lowest_neighbor_def)

lemma resolve_sinks_keeps:
  "resolve_sinks mesh el ts ds0 = Inr ds \<Longrightarrow>
   length ds = length ds0 \<and> (\<forall>t < length ds0. ds0 ! t \<noteq> -1 \<longrightarrow> ds ! t = ds0 ! t)"
proof (induction ts arbitrary: ds0)
  case Nil
  then show ?case by simp
next
  case (Cons a ts)
  show ?case
  proof (cases "ds0 ! a = -1")
    case False
    with Cons.prems have "resolve_sinks mesh el ts ds0 = Inr ds" by simp
    from Cons.IH [OF this] show ?thesis .
  next
    case True
    show ?thesis
    proof (cases "sink_search mesh el ds0 (queue_push [] a 0) (replicate (numTriangles mesh) False)")
      case (Inl e)
      with True Cons.prems show ?thesis by simp
    next
      case (Inr found)
      show ?thesis
      proof (cases found)
        case None
        with Inr True Cons.prems have "resolve_sinks mesh el ts ds0 = Inr ds" by simp
        from Cons.IH [OF this] show ?thesis .
      next
        case (Some nb)
        with Inr True Cons.prems have "resolve_sinks mesh el ts (ds0[a := nb]) = Inr ds" by simp
        from Cons.IH [OF this] have len: "length ds = length ds0"
          and keep: "\<And>t. t < length ds0 \<Longrightarrow> ds0[a := nb] ! t \<noteq> -1 \<Longrightarrow> ds ! t = ds0[a := nb] ! t"
          by simp_all
        have "ds ! t = ds0 ! t" if "t < length ds0" "ds0 ! t \<noteq> -1" for t
        proof -
          from that True have "t \<noteq> a" by auto
          with keep [OF that(1)] that(2) show ?thesis by simp
        qed
        with len show ?thesis by blast
      qed
    qed
  qed
qed

lemma calculateDownslope_keeps:
  assumes "calculateDownslope mesh el = Inr ds" and "t < numTriangles mesh"
    and "lowest_neighbor mesh el t \<noteq> -1"
  shows "ds ! t = lowest_neighbor mesh el t"
proof -
  from assms(1) have
    "resolve_sinks mesh el [0..<numTriangles mesh]
       (map (lowest_neighbor mesh el) [0..<numTriangles mesh]) = Inr ds"
    by (simp add: calculateDownslope_def split: if_splits)
  from resolve_sinks_keeps [OF this] assms(2,3) show ?thesis by simp
qed

lemma trace_source_cases:
  "trace_source mesh el sea ds fl t = []
   \<or> (\<exists>p. trace_river mesh el sea ds [t] t = Some p \<and> 3 < length p
          \<and> trace_source mesh el sea ds fl t
              = [\<lparr>rp_triangles = p, sourceTriangle = t, flow = fl ! t\<rparr>])"
  by (cases "trace_river mesh el sea ds [t] t") (simp_all add: trace_source_def Let_def)

lemma trace_source_path:
  assumes "r \<in> set (trace_source mesh el sea ds fl t)" and "t < numTriangles mesh"
  shows "length (rp_triangles r) > 3 \<and> distinct (rp_triangles r) \<and> linked ds (rp_triangles r)
         \<and> (\<forall>x \<in> set (rp_triangles r). x < numTriangles mesh)"
proof -
  from trace_source_cases [of mesh el sea ds fl t] assms(1)
  obtain p where p: "trace_river mesh el sea ds [t] t = Some p"
    and len: "length p > 3" and r: "rp_triangles r = p"
    by (elim disjE exE conjE) simp_all
  have "distinct p \<and> linked ds p \<and> (\<forall>x \<in> set p. x < numTriangles mesh)"
    using assms(2) by (intro trace_river_invariant [OF p]) (simp_all add: linked_def)
  with len r show ?thesis by simp
qed

lemma riverPaths_subset:
  assumes "r \<in> set (riverPaths (calculateFlowAccumulation mesh el rain ds config))"
  obtains t fl where "t < numTriangles mesh"
    and "r \<in> set (trace_source mesh el (cfg_seaLevel config) ds fl t)"
proof -
  from assms have "r \<in> set (sort_key (\<lambda>r. - flow r) (concat (map
      (trace_source mesh el (cfg_seaLevel config) ds
         (accumulate_flow mesh ds (sort_key (\<lambda>t. - el ! t) [0..<numTriangles mesh])
            (map (initial_flow el rain config) [0..<numTriangles mesh])))
      [0..<numTriangles mesh])))"
    by (auto simp: calculateFlowAccumulation_def Let_def dest: in_set_takeD)
  then show thesis using that by auto
qed

text \<open>
  Claim C4, amended. With downslope_t computed by calculateDownslope, every river path
  retained by calculateFlowAccumulation has length greater than 3, contains no repeated
  triangle index, and each entry but the first is the downslope of the entry before it;
  it is a mesh neighbour of that entry whenever that entry has a strictly lower neighbour
  (its downslope was set by the first pass and not by sink resolution).
\<close>

theorem river_paths_well_formed:
  assumes "calculateDownslope mesh elevation_t = Inr downslope_t"
    and "r \<in> set (riverPaths
           (calculateFlowAccumulation mesh elevation_t rainfall_t downslope_t config))"
  shows "length (rp_triangles r) > 3 \<and> distinct (rp_triangles r)
       \<and> (\<forall>i. Suc i < length (rp_triangles r) \<longrightarrow>
             int (rp_triangles r ! Suc i) = downslope_t ! (rp_triangles r ! i)
             \<and> (lowest_neighbor mesh elevation_t (rp_triangles r ! i) \<noteq> -1 \<longrightarrow>
                  int (rp_triangles r ! Suc i) \<in> set (neighbors mesh ! (rp_triangles r ! i))))"
proof -
  from riverPaths_subset [OF assms(2)] obtain t fl where
    "t < numTriangles mesh"
    "r \<in> set (trace_source mesh elevation_t (cfg_seaLevel config) downslope_t fl t)"
    by blast
  from trace_source_path [OF this(2,1)]
  have len: "length (rp_triangles r) > 3" and d: "distinct (rp_triangles r)"
    and l: "linked downslope_t (rp_triangles r)"
    and b: "\<forall>x \<in> set (rp_triangles r). x < numTriangles mesh"
    by blast+
  have "int (rp_triangles r ! Suc i) = downslope_t ! (rp_triangles r ! i)
        \<and> (lowest_neighbor mesh elevation_t (rp_triangles r ! i) \<noteq> -1 \<longrightarrow>
             int (rp_triangles r ! Suc i) \<in> set (neighbors mesh ! (rp_triangles r ! i)))"
    if i: "Suc i < length (rp_triangles r)" for i
  proof -
    from l i have link: "int (rp_triangles r ! Suc i) = downslope_t ! (rp_triangles r ! i)"
      by (simp add: linked_def)
    have "rp_triangles r ! i < numTriangles mesh" using b i by simp
    from calculateDownslope_keeps [OF assms(1) this] lowest_neighbor_member link
    show ?thesis by metis
  qed
  with len d show ?thesis by blast
qed


theorem river_paths_well_formed_witness:
  "calculateDownslope mesh_plateau elevation_plateau = Inr [2, 0, 3, 4, 5, 4, 2, 3, 4]
   \<and> \<lparr>rp_triangles = [0, 2, 3, 4], sourceTriangle = 0, flow = 1 / 2\<rparr>
       \<in> set (riverPaths (calculateFlowAccumulation mesh_plateau elevation_plateau
                 rainfall_plateau [2, 0, 3, 4, 5, 4, 2, 3, 4] default_config))
   \<and> lowest_neighbor mesh_plateau elevation_plateau 2 \<noteq> -1
   \<and> distinct [0, 2, 3, 4 :: nat]
   \<and> int 3 = [2, 0, 3, 4, 5, 4, 2, 3, 4] ! 2
   \<and> int 3 \<in> set (neighbors mesh_plateau ! 2)"
proof -
  let ?r = "\<lparr>rp_triangles = [0, 2, 3, 4], sourceTriangle = 0, flow = 1 / 2\<rparr>"
  have r: "?r \<in> set (riverPaths (calculateFlowAccumulation mesh_plateau elevation_plateau
                 rainfall_plateau [2, 0, 3, 4, 5, 4, 2, 3, 4] default_config))"
    by (simp add: plateau_rivers)
  have low: "lowest_neighbor mesh_plateau elevation_plateau 2 \<noteq> -1"
    by (simp add: lowest_neighbor_def mesh_plateau_def mesh_of_def elevation_plateau_def
        nth_opt_def)
  from river_paths_well_formed [OF plateau_downslope r]
  have d: "distinct (rp_triangles ?r)"
    and a: "\<forall>i. Suc i < length (rp_triangles ?r) \<longrightarrow>
             int (rp_triangles ?r ! Suc i) = [2, 0, 3, 4, 5, 4, 2, 3, 4] ! (rp_triangles ?r ! i)
             \<and> (lowest_neighbor mesh_plateau elevation_plateau (rp_triangles ?r ! i) \<noteq> -1 \<longrightarrow>
                  int (rp_triangles ?r ! Suc i)
                    \<in> set (neighbors mesh_plateau ! (rp_triangles ?r ! i)))"
    by blast+
  have "Suc 1 < length (rp_triangles ?r)" by simp
  with a have "int (rp_triangles ?r ! Suc 1) = [2, 0, 3, 4, 5, 4, 2, 3, 4] ! (rp_triangles ?r ! 1)
        \<and> (lowest_neighbor mesh_plateau elevation_plateau (rp_triangles ?r ! 1) \<noteq> -1 \<longrightarrow>
             int (rp_triangles ?r ! Suc 1) \<in> set (neighbors mesh_plateau ! (rp_triangles ?r ! 1)))"
    by blast
  then have "int 3 = [2, 0, 3, 4, 5, 4, 2, 3, 4] ! 2"
    and "lowest_neighbor mesh_plateau elevation_plateau 2 \<noteq> -1 \<longrightarrow>
           int 3 \<in> set (neighbors mesh_plateau ! 2)"
    by simp_all
  with low d plateau_downslope r show ?thesis by simp
qed

text \<open>
  Claim C4 as stated fails on the plateau: the sink 0 is routed by the search through the
  sink 1 to triangle 2, and the river from 0 is retained although 0 and 2 are not
  neighbours.
\<close>

theorem river_paths_counterexample:
  "calculateDownslope mesh_plateau elevation_plateau = Inr [2, 0, 3, 4, 5, 4, 2, 3, 4]
   \<and> riverPaths (calculateFlowAccumulation mesh_plateau elevation_plateau rainfall_plateau
        [2, 0, 3, 4, 5, 4, 2, 3, 4] default_config)
      = [\<lparr>rp_triangles = [0, 2, 3, 4], sourceTriangle = 0, flow = 1 / 2\<rparr>]
   \<and> 2 \<notin> set (neighbors mesh_plateau ! 0) \<and> 0 \<notin> set (neighbors mesh_plateau ! 2)"
  using plateau_downslope plateau_rivers
  by (simp add: mesh_plateau_def mesh_of_def)

subsection \<open>Point sampling\<close>


lemma cellSize_30: "cellSize config_density_30 = Some 1"
  by (simp add: cellSize_def config_density_30_def default_config_def)

lemma sqrt_quarter: "sqrt (1 / 4) = 1 / 2"
  by (simp add: real_sqrt_divide)

lemma cellSize_120: "cellSize config_density_120 = Some (1 / 2)"
  using sqrt_quarter by (simp add: cellSize_def config_density_120_def default_config_def)

lemma cellSize_one_site: "cellSize config_one_site = Some 2"
  by (simp add: cellSize_def config_one_site_def default_config_def)

lemma points_30:
  "points (fst (generatePoints noise_zero random_half 0 config_density_30))
   = [mk_point 0 0, mk_point (1 / 2) 0, mk_point 1 0, mk_point 1 (1 / 2), mk_point 1 1,
      mk_point (1 / 2) 1, mk_point 0 1, mk_point 0 (1 / 2)]"
proof -
  have f: "cfg_width config_density_30 = 1" "cfg_height config_density_30 = 1"
    by (simp_all add: config_density_30_def default_config_def)
  show ?thesis
    by (simp add: generatePoints_def cellSize_30 f Let_def createBoundaryPoints_def
        steps_up_le.simps steps_down_ge.simps steps_up_lt.simps)
qed

lemma points_120:
  "take 3 (points (fst (generatePoints noise_zero random_half 0 config_density_120)))
   = [mk_point 0 0, mk_point (1 / 4) 0, mk_point (1 / 2) 0]"
proof -
  have f: "cfg_width config_density_120 = 1" "cfg_height config_density_120 = 1"
    by (simp_all add: config_density_120_def default_config_def)
  show ?thesis
    by (simp add: generatePoints_def cellSize_120 f Let_def createBoundaryPoints_def
        steps_up_le.simps steps_down_ge.simps steps_up_lt.simps split: prod.splits)
qed

lemma one_site_fields:
  "cfg_width config_one_site = 4" "cfg_height config_one_site = 4"
  "cfg_pointDeviation config_one_site = 0.4" "cfg_mountainFrequency config_one_site = 0.5"
  by (simp_all add: config_one_site_def default_config_def)

lemma points_one_site_half:
  "last (points (fst (generatePoints noise_zero random_half 0 config_one_site))) = mk_point 1 1"
  by (simp add: generatePoints_def cellSize_one_site one_site_fields Let_def
      createBoundaryPoints_def steps_up_le.simps steps_down_ge.simps steps_up_lt.simps
      noise_zero_def createSeededNoise2D_def random_half_def)

lemma points_one_site_three_quarters:
  "last (points (fst (generatePoints noise_zero random_three_quarters 0 config_one_site)))
   = mk_point (7 / 5) (7 / 5)"
  by (simp add: generatePoints_def cellSize_one_site one_site_fields Let_def
      createBoundaryPoints_def steps_up_le.simps steps_down_ge.simps steps_up_lt.simps
      noise_zero_def createSeededNoise2D_def random_three_quarters_def)


lemma length_steps_up_le:
  "0 < step \<Longrightarrow> v \<le> b \<Longrightarrow> length (steps_up_le v b step) = nat (\<lfloor>(b - v) / step\<rfloor> + 1)"
proof (induction v b step rule: steps_up_le.induct)
  case (1 v b step)
  have eq: "(b - (v + step)) / step = (b - v) / step - 1"
    using "1.prems"(1) by (simp add: field_simps)
  have nonneg: "0 \<le> \<lfloor>(b - v) / step\<rfloor>" using "1.prems" by simp
  show ?case
  proof (cases "v + step \<le> b")
    case True
    with "1.IH" "1.prems" have
      "length (steps_up_le (v + step) b step) = nat (\<lfloor>(b - (v + step)) / step\<rfloor> + 1)"
      by simp
    with "1.prems" nonneg show ?thesis
      by (subst steps_up_le.simps) (simp add: eq nat_add_distrib)
  next
    case False
    then have "b - v < step" by simp
    then have "(b - v) / step < 1" using "1.prems"(1) by (simp add: divide_less_eq)
    with nonneg have z: "\<lfloor>(b - v) / step\<rfloor> = 0" by linarith
    have "steps_up_le (v + step) b step = []"
      using False by (subst steps_up_le.simps) simp
    with "1.prems" z show ?thesis
      by (subst steps_up_le.simps) simp
  qed
qed

lemma cellSize_positive:
  assumes "0 < cfg_width config" and "0 < cfg_height config" and "0 < cfg_biomeDensity config"
  shows "cellSize config = Some (sqrt (30 / cfg_biomeDensity config))"
proof -
  have "cfg_width config * cfg_height config \<noteq> 0" using assms by simp
  then have "(cfg_width config * cfg_height config)
             / ((cfg_width config * cfg_height config * cfg_biomeDensity config) / 30)
           = 30 / cfg_biomeDensity config"
    using assms(3) by (simp add: field_simps)
  with assms show ?thesis by (simp add: cellSize_def)
qed

text \<open>
  Claim C7, amended. generatePoints does not clamp the cell size: for positive width,
  height and biomeDensity it uses cellSize = sqrt(30 / biomeDensity) as derived, also when
  that is less than 2, and emits at least floor(2 * width / cellSize) + 1 points (those
  of the bottom edge), a number that no bound independent of biomeDensity limits.
\<close>

theorem generatePoints_unclamped:
  assumes "0 < cfg_width config" and "0 < cfg_height config" and "0 < cfg_biomeDensity config"
  shows "cellSize config = Some (sqrt (30 / cfg_biomeDensity config))
       \<and> nat \<lfloor>2 * cfg_width config / sqrt (30 / cfg_biomeDensity config)\<rfloor> + 1
           \<le> length (points (fst (generatePoints lib random k config)))"
proof -
  let ?cs = "sqrt (30 / cfg_biomeDensity config)"
  have cs: "cellSize config = Some ?cs" by (rule cellSize_positive [OF assms])
  have pos: "0 < ?cs / 2" using assms(3) by simp
  have "length (steps_up_le 0 (cfg_width config) (?cs / 2))
        = nat (\<lfloor>(cfg_width config - 0) / (?cs / 2)\<rfloor> + 1)"
    using assms(1) by (intro length_steps_up_le [OF pos]) simp
  also have "\<dots> = nat \<lfloor>2 * cfg_width config / ?cs\<rfloor> + 1"
  proof -
    have e: "(cfg_width config - 0) / (?cs / 2) = 2 * cfg_width config / ?cs" by simp
    have "0 \<le> 2 * cfg_width config / ?cs" using assms(1,3) by simp
    then have "0 \<le> \<lfloor>2 * cfg_width config / ?cs\<rfloor>" by simp
    then show ?thesis unfolding e by (simp only: nat_add_distrib)
  qed
  finally have bottom: "length (steps_up_le 0 (cfg_width config) (?cs / 2))
        = nat \<lfloor>2 * cfg_width config / ?cs\<rfloor> + 1" .
  have "length (steps_up_le 0 (cfg_width config) (?cs / 2))
        \<le> length (points (fst (generatePoints lib random k config)))"
    by (simp add: generatePoints_def cs Let_def createBoundaryPoints_def split: prod.splits)
  with bottom cs show ?thesis by simp
qed


theorem generatePoints_unclamped_witness:
  "0 < cfg_width config_density_30 \<and> 0 < cfg_height config_density_30
   \<and> 0 < cfg_biomeDensity config_density_30
   \<and> cellSize config_density_30 = Some 1
   \<and> 3 \<le> length (points (fst (generatePoints noise_zero random_half 0 config_density_30)))"
proof -
  have f: "cfg_width config_density_30 = 1" "cfg_height config_density_30 = 1"
    "cfg_biomeDensity config_density_30 = 30"
    by (simp_all add: config_density_30_def default_config_def)
  have "0 < cfg_width config_density_30" "0 < cfg_height config_density_30"
    "0 < cfg_biomeDensity config_density_30"
    by (simp_all add: f)
  from generatePoints_unclamped [OF this, of noise_zero random_half 0]
  show ?thesis by (simp add: f)
qed

text \<open>
  Claim C7 as stated fails. The derived cell sizes 1 and 1/2 are both below 2 and both are
  used as they are: the second boundary point lies at half the cell size, 1/2 in one map
  and 1/4 in the other, so the cell size is not raised to any common minimum.
\<close>

theorem generatePoints_clamp_counterexample:
  "cellSize config_density_30 = Some 1
   \<and> points (fst (generatePoints noise_zero random_half 0 config_density_30)) ! 1
       = mk_point (1 / 2) 0
   \<and> cellSize config_density_120 = Some (1 / 2)
   \<and> points (fst (generatePoints noise_zero random_half 0 config_density_120)) ! 1
       = mk_point (1 / 4) 0"
proof -
  have "take 3 (points (fst (generatePoints noise_zero random_half 0 config_density_120))) ! 1
      = points (fst (generatePoints noise_zero random_half 0 config_density_120)) ! 1"
    by simp
  then have "points (fst (generatePoints noise_zero random_half 0 config_density_120)) ! 1
      = mk_point (1 / 4) 0"
    by (simp add: points_120)
  then show ?thesis by (simp add: cellSize_30 cellSize_120 points_30)
qed

subsection \<open>Determinism\<close>

text \<open>
  Claim C1 fails on the code: generatePoints jitters every interior point with
  Math.random(), which the seed does not determine. With one and the same configuration,
  two runs in which Math.random() returns 1/2 and 3/4 place the interior point of a 4 by 4
  map at (1, 1) and at (1.4, 1.4).
\<close>

theorem generatePoints_not_determined_by_config:
  "last (points (fst (generatePoints noise_zero random_half 0 config_one_site)))
     = mk_point 1 1
   \<and> last (points (fst (generatePoints noise_zero random_three_quarters 0 config_one_site)))
     = mk_point (7 / 5) (7 / 5)
   \<and> fst (generatePoints noise_zero random_half 0 config_one_site)
     \<noteq> fst (generatePoints noise_zero random_three_quarters 0 config_one_site)"
proof -
  have "mk_point 1 1 \<noteq> mk_point (7 / 5) (7 / 5)" by (simp add: mk_point_def)
  with points_one_site_half points_one_site_three_quarters show ?thesis by metis
qed

subsection \<open>The field riverMinFlow\<close>

























subsection \<open>Configuration errors\<close>



















subsection \<open>Internal failures\<close>












subsection \<open>Water biomes\<close>

lemma hasNeighborBelow_defined:
  "t < length (neighbors mesh) \<Longrightarrow> hasNeighborBelow mesh t el s \<noteq> None"
  by (simp add: hasNeighborBelow_def)

lemma biome_of_triangle_defined:
  "t < length (neighbors mesh) \<Longrightarrow> biome_of_triangle mesh el mo te s t \<noteq> None"
  using hasNeighborBelow_defined [of t mesh el s]
  by (auto simp: biome_of_triangle_def Let_def split: option.splits)

lemma assignBiomes_nth:
  assumes "length (neighbors mesh) = numTriangles mesh" and "t < numTriangles mesh"
  shows "assignBiomes mesh el mo te s ! t = the (biome_of_triangle mesh el mo te s t)"
proof -
  have "list_all (\<lambda>r. r \<noteq> None)
          (map (biome_of_triangle mesh el mo te s) [0..<numTriangles mesh])"
    using assms(1) biome_of_triangle_defined [of _ mesh el mo te s]
    by (auto simp: list_all_iff)
  then show ?thesis
    using assms(2) by (simp add: assignBiomes_def Let_def)
qed

text \<open>
  Claim C8. In a mesh whose neighbour table has one row per triangle, assignBiomes gives a
  boundary triangle OCEAN; a non-boundary triangle with elevation e below the sea level s
  gets SHALLOW_WATER, SHALLOW_OCEAN, OCEAN or DEEP_OCEAN as the depth ratio
  d = (s - e) / s is below 0.1, below 0.3, below 0.7 or not (for s = 0 the ratio is
  infinite and the biome is DEEP_OCEAN).
\<close>

theorem assignBiomes_water:
  assumes "length (neighbors mesh) = numTriangles mesh" and "t < numTriangles mesh"
  shows "(is_boundary_t mesh ! t \<longrightarrow>
            assignBiomes mesh elevation_t moisture_t temperature_t s ! t = OCEAN)
       \<and> (\<not> is_boundary_t mesh ! t \<and> elevation_t ! t < s \<longrightarrow>
            assignBiomes mesh elevation_t moisture_t temperature_t s ! t =
              (if s = 0 then DEEP_OCEAN
               else if (s - elevation_t ! t) / s < 0.1 then SHALLOW_WATER
               else if (s - elevation_t ! t) / s < 0.3 then SHALLOW_OCEAN
               else if (s - elevation_t ! t) / s < 0.7 then OCEAN
               else DEEP_OCEAN))"
  unfolding assignBiomes_nth [OF assms]
  by (simp add: biome_of_triangle_def waterBiome_def Let_def)

theorem assignBiomes_water_witness:
  "length (neighbors mesh_two) = numTriangles mesh_two \<and> 1 < numTriangles mesh_two
   \<and> \<not> is_boundary_t mesh_two ! 1 \<and> [0, 0.3] ! 1 < (0.4 :: real)
   \<and> assignBiomes mesh_two [0, 0.3] [1, 1] [0.5, 0.5] 0.4 ! 1 = SHALLOW_OCEAN"
  using assignBiomes_water [of mesh_two 1 "[0, 0.3]" "[1, 1]" "[0.5, 0.5]" "0.4"]
  by (simp add: mesh_two_def mesh_of_def)

end
